theory Spec2Isabelle
  imports Main
begin

section \<open>Member.h: the Member descriptor\<close>

text \<open>
  An object of the registered class is a store: it maps a data-member designator (what a
  pointer to member \<^verbatim>\<open>T Class::*\<close> denotes) to the value held there. Reading
  \<^verbatim>\<open>obj.*ptr\<close> is \<open>obj ptr\<close>, the assignment \<^verbatim>\<open>obj.*ptr = v\<close> is
  \<open>obj(ptr := v)\<close>.
\<close>

type_synonym ('f, 'v) Class = "'f \<Rightarrow> 'v"

text \<open>
  The private fields of \<^verbatim>\<open>Member<Class, T>\<close>, in declaration order. A pointer to
  member function is nullable: \<open>None\<close> is the null pointer. A getter reads the object, a
  setter returns the object it leaves behind, and the non-const reference getter yields the
  location the returned \<^verbatim>\<open>T&\<close> refers to. The data-member pointer \<open>ptr\<close> carries no
  presence information of its own: \<open>hasMemberPtr\<close> does.
\<close>

record ('f, 'v) Member =
  name :: string
  ptr :: 'f
  hasMemberPtr :: bool
  refGetterPtr :: "(('f, 'v) Class \<Rightarrow> 'v) option"
  refSetterPtr :: "('v \<Rightarrow> ('f, 'v) Class \<Rightarrow> ('f, 'v) Class) option"
  valGetterPtr :: "(('f, 'v) Class \<Rightarrow> 'v) option"
  valSetterPtr :: "('v \<Rightarrow> ('f, 'v) Class \<Rightarrow> ('f, 'v) Class) option"
  nonConstRefGetterPtr :: "(('f, 'v) Class \<Rightarrow> 'f) option"

text \<open>The contextual conversion of a pointer to \<^verbatim>\<open>bool\<close>: true unless null.\<close>

definition to_bool :: "'a option \<Rightarrow> bool" where
  "to_bool p = (case p of None \<Rightarrow> False | Some _ \<Rightarrow> True)"

definition getName :: "('f, 'v) Member \<Rightarrow> string" where
  "getName m = name m"

definition hasPtr :: "('f, 'v) Member \<Rightarrow> bool" where
  "hasPtr m = hasMemberPtr m"

definition hasGetter :: "('f, 'v) Member \<Rightarrow> bool" where
  "hasGetter m = (to_bool (refGetterPtr m) \<or> to_bool (valGetterPtr m))"

definition hasSetter :: "('f, 'v) Member \<Rightarrow> bool" where
  "hasSetter m = (to_bool (refSetterPtr m) \<or> to_bool (valSetterPtr m))"

definition canGetConstRef :: "('f, 'v) Member \<Rightarrow> bool" where
  "canGetConstRef m = (hasMemberPtr m \<or> to_bool (refGetterPtr m))"

definition canGetRef :: "('f, 'v) Member \<Rightarrow> bool" where
  "canGetRef m = (hasMemberPtr m \<or> to_bool (nonConstRefGetterPtr m))"

section \<open>Member.h: EnumMember and its two static maps\<close>

text \<open>
  \<^verbatim>\<open>to_str_map()\<close> and \<^verbatim>\<open>from_str_map()\<close> each return a reference to a function-local
  \<^verbatim>\<open>static\<close> map. There is one such pair per instantiation \<^verbatim>\<open>EnumMember<Class, T>\<close>,
  not per object, so the pair is a piece of program state that every operation receives
  and returns, whatever instance it is called on.
\<close>

record 'e statics =
  to_str_map :: "'e \<rightharpoonup> string"
  from_str_map :: "string \<rightharpoonup> 'e"

text \<open>Both maps are empty until first written.\<close>

definition statics0 :: "'e statics" where
  "statics0 = \<lparr>to_str_map = Map.empty, from_str_map = Map.empty\<rparr>"

text \<open>
  \<^verbatim>\<open>std::unordered_map::operator[]\<close> used as a read: the mapped value when the key is
  there; otherwise a value-initialised entry is inserted for the key and returned.
\<close>

definition subscript :: "('k \<rightharpoonup> 'a) \<Rightarrow> 'k \<Rightarrow> 'a \<Rightarrow> 'a \<times> ('k \<rightharpoonup> 'a)" where
  "subscript m k dflt = (case m k of Some a \<Rightarrow> (a, m) | None \<Rightarrow> (dflt, m(k \<mapsto> dflt)))"

text \<open>
  \<^verbatim>\<open>EnumMember::value\<close> (enum overload): assigns into both maps and returns \<^verbatim>\<open>*this\<close>.
\<close>

definition EnumMember_value ::
  "('f, 'e) Member \<Rightarrow> string \<Rightarrow> 'e \<Rightarrow> 'e statics \<Rightarrow> ('f, 'e) Member \<times> 'e statics" where
  "EnumMember_value this nm val s =
     (this, \<lparr>to_str_map = (to_str_map s)(val \<mapsto> nm),
             from_str_map = (from_str_map s)(nm \<mapsto> val)\<rparr>)"

text \<open>
  A \<^verbatim>\<open>std::string&\<close> into the value-to-name map: the reference to the mapped string of
  a key. Entries are never erased and a reference into an \<^verbatim>\<open>unordered_map\<close> survives
  later insertions, so the reference is given by the key whose entry it denotes.
\<close>

datatype 'e string_ref = Entry 'e

text \<open>
  Reading through such a reference gives the string the entry holds at that moment
  (\<open>None\<close>: the map has no such entry, which no reference obtained from \<open>toString\<close>
  meets).
\<close>

definition deref :: "'e statics \<Rightarrow> 'e string_ref \<Rightarrow> string option" where
  "deref s r = (case r of Entry k \<Rightarrow> to_str_map s k)"

text \<open>
  Assigning through such a reference overwrites the mapped string of its entry, in the
  shared map; any other modification of the string through the reference amounts to
  assigning the string it results in. It never inserts a key.
\<close>

definition assign :: "'e string_ref \<Rightarrow> string \<Rightarrow> 'e statics \<Rightarrow> 'e statics" where
  "assign r str s =
     (case r of
        Entry k \<Rightarrow>
          (case to_str_map s k of
             None \<Rightarrow> s
           | Some _ \<Rightarrow> \<lparr>to_str_map = (to_str_map s)(k \<mapsto> str), from_str_map = from_str_map s\<rparr>))"

text \<open>
  \<^verbatim>\<open>EnumMember::toString\<close> (enum overload): \<^verbatim>\<open>return to_str_map[value]\<close>, with the
  return type \<^verbatim>\<open>std::string&\<close>. The subscript inserts the value-initialised
  \<^verbatim>\<open>std::string\<close>, the empty string, when the key is missing; what is returned is the
  non-const reference to the entry of \<open>val\<close>, not a copy of the string.
\<close>

definition toString ::
  "('f, 'e) Member \<Rightarrow> 'e \<Rightarrow> 'e statics \<Rightarrow> 'e string_ref \<times> 'e statics" where
  "toString this val s =
     (case subscript (to_str_map s) val [] of
        (r, m') \<Rightarrow> (Entry val, \<lparr>to_str_map = m', from_str_map = from_str_map s\<rparr>))"

text \<open>The string a caller sees who reads the returned reference at once.\<close>

definition toString_read :: "('f, 'e) Member \<Rightarrow> 'e \<Rightarrow> 'e statics \<Rightarrow> string option" where
  "toString_read this val s = (case toString this val s of (r, s') \<Rightarrow> deref s' r)"

text \<open>
  \<^verbatim>\<open>EnumMember::fromString\<close> (enum overload): \<^verbatim>\<open>return from_str_map[name]\<close>. The
  value-initialised enumeration is the one whose underlying value is zero, \<open>0\<close> here.
\<close>

definition fromString ::
  "('f, 'e) Member \<Rightarrow> string \<Rightarrow> ('e::zero) statics \<Rightarrow> 'e \<times> 'e statics" where
  "fromString this nm s =
     (case subscript (from_str_map s) nm 0 of
        (r, m') \<Rightarrow> (r, \<lparr>to_str_map = to_str_map s, from_str_map = m'\<rparr>))"

text \<open>
  A history of what client code can do to the maps of one \<^verbatim>\<open>(Class, T)\<close> pair: the
  three public calls, each on some instance, and an assignment through a reference that an
  earlier \<open>toString\<close> returned (\<^verbatim>\<open>m.toString(v) = str\<close> is \<open>ToString v\<close> followed by
  \<open>Assign (Entry v) str\<close>). The maps themselves are private.
\<close>

datatype 'e call = Value string 'e | ToString 'e | FromString string | Assign "'e string_ref" string

fun exec_call :: "('f, 'e) Member \<times> ('e::zero) call \<Rightarrow> 'e statics \<Rightarrow> 'e statics" where
  "exec_call (this, Value nm val) s = snd (EnumMember_value this nm val s)"
| "exec_call (this, ToString val) s = snd (toString this val s)"
| "exec_call (this, FromString nm) s = snd (fromString this nm s)"
| "exec_call (this, Assign r str) s = assign r str s"

fun run_calls :: "(('f, 'e) Member \<times> ('e::zero) call) list \<Rightarrow> 'e statics \<Rightarrow> 'e statics" where
  "run_calls [] s = s"
| "run_calls (c # cs) s = run_calls cs (exec_call c s)"

subsection \<open>The overloads for a type that is not an enumeration\<close>

datatype failure = AssertionFailed

text \<open>\<^verbatim>\<open>assert(e)\<close>: aborts when \<open>e\<close> is false, continues otherwise.\<close>

definition c_assert :: "bool \<Rightarrow> failure + unit" where
  "c_assert e = (if e then Inr () else Inl AssertionFailed)"

text \<open>
  A string literal used as a condition decays to a pointer to its first character, which
  is never null: the condition is true whatever the text.
\<close>

definition literal_condition :: "string \<Rightarrow> bool" where
  "literal_condition lit = True"

definition nonenum_message :: string where
  "nonenum_message =
     ''Called EnumMember method on non-enum type class. Something went horribly wrong!''"

text \<open>
  \<^verbatim>\<open>toString\<close> for a non-enumeration \<open>T\<close>: the assertion on the message literal, then
  \<^verbatim>\<open>return std::string("")\<close>.
\<close>

definition toString_nonenum :: "('f, 'v) Member \<Rightarrow> 'v \<Rightarrow> failure + string" where
  "toString_nonenum this val =
     (case c_assert (literal_condition nonenum_message) of
        Inl e \<Rightarrow> Inl e
      | Inr _ \<Rightarrow> Inr [])"

text \<open>
  \<^verbatim>\<open>fromString\<close> for a non-enumeration \<open>T\<close>: the same assertion, then the local
  \<^verbatim>\<open>U v;\<close> is returned as it was default-initialised; \<open>uninit\<close> stands for that value.
\<close>

definition fromString_nonenum :: "('f, 'v) Member \<Rightarrow> string \<Rightarrow> 'v \<Rightarrow> failure + 'v" where
  "fromString_nonenum this nm uninit =
     (case c_assert (literal_condition nonenum_message) of
        Inl e \<Rightarrow> Inl e
      | Inr _ \<Rightarrow> Inr uninit)"

text \<open>
  \<^verbatim>\<open>Member::as_enum\<close>, for comparison: its assertion tests \<^verbatim>\<open>is_enum() && "..."\<close>, which
  is false exactly when \<open>T\<close> is not an enumeration.
\<close>

definition as_enum :: "bool \<Rightarrow> ('f, 'v) Member \<Rightarrow> failure + ('f, 'v) Member" where
  "as_enum is_enum this =
     (case c_assert (is_enum \<and> literal_condition ''to_enum_member used for non-enum type!'') of
        Inl e \<Rightarrow> Inl e
      | Inr _ \<Rightarrow> Inr this)"

section \<open>Member access: getCopy and set\<close>

text \<open>
  \<^verbatim>\<open>Member.h\<close> declares \<^verbatim>\<open>getCopy\<close> and \<^verbatim>\<open>set\<close>; their bodies are in
  \<^verbatim>\<open>Member.inl\<close>. A contract violation and a lookup miss are the two failures the
  specification names.
\<close>

datatype error = ContractViolation | LookupMiss

text \<open>
  Modelled from the spec: the body of \<^verbatim>\<open>Member::getCopy\<close> (in \<^verbatim>\<open>Member.inl\<close>) is
  missing. It returns a copy through any populated get-capable strategy (direct field,
  value getter or reference getter), accessors before the direct field, and is satisfiable
  whenever \<^verbatim>\<open>hasGetter() || hasPtr()\<close>. The specification does not order the two kinds
  of getter; the reference getter is consulted first here.
\<close>

definition getCopy :: "('f, 'v) Member \<Rightarrow> ('f, 'v) Class \<Rightarrow> error + 'v" where
  "getCopy m obj =
     (case refGetterPtr m of
        Some g \<Rightarrow> Inr (g obj)
      | None \<Rightarrow>
          (case valGetterPtr m of
             Some g \<Rightarrow> Inr (g obj)
           | None \<Rightarrow> if hasMemberPtr m then Inr (obj (ptr m)) else Inl ContractViolation))"

text \<open>
  Modelled from the spec: the body of \<^verbatim>\<open>Member::set\<close> (in \<^verbatim>\<open>Member.inl\<close>) is missing.
  It takes a value already converted to \<open>T\<close>, prefers a setter accessor over the direct
  field write when both exist, and fails when no setter-capable strategy exists. The
  result is the object after the call.
\<close>

definition set_member ::
  "('f, 'v) Member \<Rightarrow> ('f, 'v) Class \<Rightarrow> 'v \<Rightarrow> error + ('f, 'v) Class" where
  "set_member m obj v =
     (case refSetterPtr m of
        Some st \<Rightarrow> Inr (st v obj)
      | None \<Rightarrow>
          (case valSetterPtr m of
             Some st \<Rightarrow> Inr (st v obj)
           | None \<Rightarrow> if hasMemberPtr m then Inr (obj(ptr m := v)) else Inl ContractViolation))"

section \<open>Meta.h: the class registry and the generic dispatch\<close>

text \<open>
  \<^verbatim>\<open>Meta.h\<close> declares the functions of this section; their bodies are in \<^verbatim>\<open>Meta.inl\<close>.
  The tuple a registration returns is heterogeneous: each element is kept with its declared
  \<^verbatim>\<open>member_type\<close>, and field values range over one universe \<open>'v\<close>.
\<close>

type_synonym ('ty, 'f, 'v) members = "('ty \<times> ('f, 'v) Member) list"

text \<open>
  Modelled from the spec: the primary template of \<^verbatim>\<open>registerMembers\<close> (in
  \<^verbatim>\<open>Meta.inl\<close>) is missing. The user's specialisations are the entries of \<open>R\<close>; a class
  without one gets the empty ordered collection.
\<close>

definition registerMembers :: "('k \<rightharpoonup> 'm list) \<Rightarrow> 'k \<Rightarrow> 'm list" where
  "registerMembers R C = (case R C of None \<Rightarrow> [] | Some ms \<Rightarrow> ms)"

text \<open>
  Modelled from the spec: \<^verbatim>\<open>isRegistered\<close> (in \<^verbatim>\<open>Meta.inl\<close>) is missing. It is true iff
  a \<^verbatim>\<open>registerMembers\<close> specialisation exists for the class.
\<close>

definition isRegistered :: "('k \<rightharpoonup> 'm list) \<Rightarrow> 'k \<Rightarrow> bool" where
  "isRegistered R C = to_bool (R C)"

text \<open>
  Modelled from the spec: the body of \<^verbatim>\<open>hasMember\<close> (in \<^verbatim>\<open>Meta.inl\<close>) is missing. It is
  a linear scan of the class's member collection \<open>ms\<close>, the one its registration
  returned, for a name match.
\<close>

definition hasMember :: "('ty, 'f, 'v) members \<Rightarrow> string \<Rightarrow> bool" where
  "hasMember ms nm = list_ex (\<lambda>e. getName (snd e) = nm) ms"

text \<open>
  Modelled from the spec: the body of \<^verbatim>\<open>doForAllMembers\<close> (in \<^verbatim>\<open>Meta.inl\<close>) is
  missing. It applies \<open>f\<close> to every member of the class's collection, in registration
  order; \<open>s\<close> is whatever \<open>f\<close> acts on.
\<close>

definition doForAllMembers ::
  "('ty, 'f, 'v) members \<Rightarrow> ('ty \<times> ('f, 'v) Member \<Rightarrow> 's \<Rightarrow> 's) \<Rightarrow> 's \<Rightarrow> 's" where
  "doForAllMembers ms f s = fold f ms s"

text \<open>
  Modelled from the spec: the search shared by the name-and-type lookups (in
  \<^verbatim>\<open>Meta.inl\<close>) is missing. A lookup matches both the name and the declared member
  type \<open>T\<close>, and takes the first member that does.
\<close>

definition find_member ::
  "('ty, 'f, 'v) members \<Rightarrow> 'ty \<Rightarrow> string \<Rightarrow> ('f, 'v) Member option" where
  "find_member ms T nm =
     map_option snd (find (\<lambda>e. getName (snd e) = nm \<and> fst e = T) ms)"

text \<open>
  Modelled from the spec: the body of \<^verbatim>\<open>doForMember\<close> (in \<^verbatim>\<open>Meta.inl\<close>) is missing. It
  finds the first member named \<open>nm\<close> whose declared type matches \<open>T\<close> and applies \<open>f\<close>
  to it; with no match it gives the explicit not-found signal.
\<close>

definition doForMember ::
  "('ty, 'f, 'v) members \<Rightarrow> 'ty \<Rightarrow> string \<Rightarrow> (('f, 'v) Member \<Rightarrow> 's \<Rightarrow> 's) \<Rightarrow> 's \<Rightarrow> error + 's" where
  "doForMember ms T nm f s =
     (case find_member ms T nm of None \<Rightarrow> Inl LookupMiss | Some m \<Rightarrow> Inr (f m s))"

text \<open>
  Modelled from the spec: the body of \<^verbatim>\<open>getMemberValue\<close> (in \<^verbatim>\<open>Meta.inl\<close>) is missing.
  It finds the member by name and type and returns its value by copy, and signals a lookup
  error if it is not found.
\<close>

definition getMemberValue ::
  "('ty, 'f, 'v) members \<Rightarrow> 'ty \<Rightarrow> ('f, 'v) Class \<Rightarrow> string \<Rightarrow> error + 'v" where
  "getMemberValue ms T obj nm =
     (case find_member ms T nm of None \<Rightarrow> Inl LookupMiss | Some m \<Rightarrow> getCopy m obj)"

text \<open>
  Modelled from the spec: the body of \<^verbatim>\<open>setMemberValue\<close> (in \<^verbatim>\<open>Meta.inl\<close>) is missing.
  It finds the member by name and type and sets it from the value, and fails if it is not
  found.
\<close>

definition setMemberValue ::
  "('ty, 'f, 'v) members \<Rightarrow> 'ty \<Rightarrow> ('f, 'v) Class \<Rightarrow> string \<Rightarrow> 'v \<Rightarrow> error + ('f, 'v) Class" where
  "setMemberValue ms T obj nm v =
     (case find_member ms T nm of None \<Rightarrow> Inl LookupMiss | Some m \<Rightarrow> set_member m obj v)"

section \<open>Sample registrations\<close>

text \<open>An enumeration with three enumerators; \<open>Red\<close> has the underlying value zero.\<close>

datatype Color = Red | Green | Blue

instantiation Color :: zero
begin

definition zero_Color_def: "0 = Red"

instance ..

end

text \<open>A member bound to the data member at designator \<open>p\<close>, with no accessor.\<close>

definition direct_member :: "string \<Rightarrow> 'f \<Rightarrow> ('f, 'v) Member" where
  "direct_member nm p =
     \<lparr>name = nm, ptr = p, hasMemberPtr = True,
      refGetterPtr = None, refSetterPtr = None,
      valGetterPtr = None, valSetterPtr = None,
      nonConstRefGetterPtr = None\<rparr>"

definition color_member :: "(nat, Color) Member" where
  "color_member = direct_member ''color'' 0"

definition other_color_member :: "(nat, Color) Member" where
  "other_color_member = direct_member ''border'' 1"

text \<open>
  A member record with a direct field (designator 0) and a value accessor pair as well.
  The accessors work on designator 1, so that the two routes can be told apart.
\<close>

definition getN :: "(nat, int) Class \<Rightarrow> int" where
  "getN obj = obj 1"

definition setN :: "int \<Rightarrow> (nat, int) Class \<Rightarrow> (nat, int) Class" where
  "setN v obj = obj(1 := v)"

definition val_shadowed :: "(nat, int) Member" where
  "val_shadowed = (direct_member ''n'' 0)\<lparr>valGetterPtr := Some getN, valSetterPtr := Some setN\<rparr>"

definition obj0 :: "(nat, int) Class" where
  "obj0 = (\<lambda>_. 0)(0 := 7, 1 := 42)"

text \<open>
  A class \<open>Point\<close> registered with the integer fields \<open>x\<close> and \<open>y\<close>, and a class with no
  registration.
\<close>

datatype class_id = Point | Unregistered

datatype type_id = T_int | T_float

definition registry :: "class_id \<rightharpoonup> (type_id, nat, int) members" where
  "registry = [Point \<mapsto> [(T_int, direct_member ''x'' 0), (T_int, direct_member ''y'' 1)]]"

text \<open>A visitor that counts its invocations.\<close>

definition count_call :: "'a \<Rightarrow> nat \<Rightarrow> nat" where
  "count_call e n = Suc n"

section \<open>Properties\<close>

subsection \<open>Registered enumerators\<close>

lemma run_calls_append: "run_calls (xs @ ys) s = run_calls ys (run_calls xs s)"
  by (induction xs arbitrary: s) simp_all

lemma exec_call_keeps_name:
  assumes "to_str_map s v = Some n"
    and "\<And>n'. snd c = Value n' v \<Longrightarrow> n' = n"
    and "\<And>str. snd c = Assign (Entry v) str \<Longrightarrow> str = n"
  shows "to_str_map (exec_call c s) v = Some n"
proof (cases c)
  case (Pair this k)
  show ?thesis
  proof (cases k)
    case (Value n' v')
    with Pair assms show ?thesis
      by (auto simp: EnumMember_value_def)
  next
    case (ToString v')
    with Pair assms show ?thesis
      by (auto simp: toString_def subscript_def split: option.splits)
  next
    case (FromString n')
    with Pair assms show ?thesis
      by (auto simp: fromString_def subscript_def split: option.splits)
  next
    case (Assign r str)
    obtain k' where r: "r = Entry k'" by (cases r)
    show ?thesis
    proof (cases "k' = v")
      case True
      with Pair Assign r assms(3) have "str = n" by simp
      with True Pair Assign r assms(1) show ?thesis
        by (simp add: assign_def)
    next
      case False
      with Pair Assign r assms(1) show ?thesis
        by (simp add: assign_def split: option.splits)
    qed
  qed
qed

lemma run_calls_keeps_name:
  "to_str_map s v = Some n \<Longrightarrow>
   (\<And>this n'. (this, Value n' v) \<in> set cs \<Longrightarrow> n' = n) \<Longrightarrow>
   (\<And>this str. (this, Assign (Entry v) str) \<in> set cs \<Longrightarrow> str = n) \<Longrightarrow>
   to_str_map (run_calls cs s) v = Some n"
proof (induction cs arbitrary: s)
  case Nil
  then show ?case by simp
next
  case (Cons c cs)
  have "to_str_map (exec_call c s) v = Some n"
  proof (rule exec_call_keeps_name [OF Cons.prems(1)])
    fix n' assume "snd c = Value n' v"
    then have "(fst c, Value n' v) \<in> set (c # cs)" by (cases c) simp
    then show "n' = n" by (rule Cons.prems(2))
  next
    fix str assume "snd c = Assign (Entry v) str"
    then have "(fst c, Assign (Entry v) str) \<in> set (c # cs)" by (cases c) simp
    then show "str = n" by (rule Cons.prems(3))
  qed
  moreover have "\<And>this n'. (this, Value n' v) \<in> set cs \<Longrightarrow> n' = n"
    using Cons.prems(2) by auto
  moreover have "\<And>this str. (this, Assign (Entry v) str) \<in> set cs \<Longrightarrow> str = n"
    using Cons.prems(3) by auto
  ultimately show ?case using Cons.IH by simp
qed

lemma exec_call_keeps_value:
  assumes "from_str_map s n = Some v"
    and "\<And>v'. snd c = Value n v' \<Longrightarrow> v' = v"
  shows "from_str_map (exec_call c s) n = Some v"
proof (cases c)
  case (Pair this k)
  show ?thesis
  proof (cases k)
    case (Value n' v')
    with Pair assms show ?thesis
      by (auto simp: EnumMember_value_def)
  next
    case (ToString v')
    with Pair assms show ?thesis
      by (auto simp: toString_def subscript_def split: option.splits)
  next
    case (FromString n')
    with Pair assms show ?thesis
      by (auto simp: fromString_def subscript_def split: option.splits)
  next
    case (Assign r str)
    with Pair assms(1) show ?thesis
      by (cases r) (simp add: assign_def split: option.splits)
  qed
qed

lemma run_calls_keeps_value:
  "from_str_map s n = Some v \<Longrightarrow> (\<And>this v'. (this, Value n v') \<in> set cs \<Longrightarrow> v' = v)
     \<Longrightarrow> from_str_map (run_calls cs s) n = Some v"
proof (induction cs arbitrary: s)
  case Nil
  then show ?case by simp
next
  case (Cons c cs)
  have "from_str_map (exec_call c s) n = Some v"
  proof (rule exec_call_keeps_value [OF Cons.prems(1)])
    fix v' assume "snd c = Value n v'"
    then have "(fst c, Value n v') \<in> set (c # cs)" by (cases c) simp
    then show "v' = v" by (rule Cons.prems(2))
  qed
  moreover have "\<And>this v'. (this, Value n v') \<in> set cs \<Longrightarrow> v' = v"
    using Cons.prems(2) by auto
  ultimately show ?case using Cons.IH by simp
qed

lemma toString_present: "to_str_map s v = Some n \<Longrightarrow> toString this v s = (Entry v, s)"
  by (simp add: toString_def subscript_def)

lemma toString_read_present: "to_str_map s v = Some n \<Longrightarrow> toString_read this v s = Some n"
  by (simp add: toString_read_def toString_present deref_def)

lemma fromString_present: "from_str_map s n = Some v \<Longrightarrow> fromString this n s = (v, s)"
  by (simp add: fromString_def subscript_def)

text \<open>
  C1, as amended. Take any history on the maps of one \<open>(Class, T)\<close> pair in which
  \<open>value(n, v)\<close> occurs, from any state of the maps and on any instances. If every
  later \<open>value\<close> call that registers \<open>v\<close> again gives it the name \<open>n\<close>, and every
  later assignment through a reference that \<open>toString(v)\<close> returned writes \<open>n\<close>, then
  \<open>toString(v)\<close> returns a reference to the string \<open>n\<close>. If every later \<open>value\<close> call
  that registers \<open>n\<close> again gives it the value \<open>v\<close>, then \<open>fromString(n)\<close> returns
  \<open>v\<close>. The last write of a key wins; \<open>toString\<close> and \<open>fromString\<close> calls in between
  do not disturb a registered pair.
\<close>

theorem C1_last_write_wins:
  fixes s :: "('e::zero) statics"
  shows "((\<forall>this' n'. (this', Value n' v) \<in> set post \<longrightarrow> n' = n) \<and>
          (\<forall>this' str. (this', Assign (Entry v) str) \<in> set post \<longrightarrow> str = n) \<longrightarrow>
            toString_read m v (run_calls (pre @ (this, Value n v) # post) s) = Some n) \<and>
         ((\<forall>this' v'. (this', Value n v') \<in> set post \<longrightarrow> v' = v) \<longrightarrow>
            fst (fromString m n (run_calls (pre @ (this, Value n v) # post) s)) = v)"
proof (intro conjI impI)
  let ?s1 = "exec_call (this, Value n v) (run_calls pre s)"
  have run: "run_calls (pre @ (this, Value n v) # post) s = run_calls post ?s1"
    by (simp add: run_calls_append)
  {
    assume h: "(\<forall>this' n'. (this', Value n' v) \<in> set post \<longrightarrow> n' = n) \<and>
               (\<forall>this' str. (this', Assign (Entry v) str) \<in> set post \<longrightarrow> str = n)"
    have "to_str_map ?s1 v = Some n" by (simp add: EnumMember_value_def)
    then have "to_str_map (run_calls post ?s1) v = Some n"
      using h by (intro run_calls_keeps_name) auto
    then show "toString_read m v (run_calls (pre @ (this, Value n v) # post) s) = Some n"
      by (simp add: run toString_read_present)
  }
  {
    assume h: "\<forall>this' v'. (this', Value n v') \<in> set post \<longrightarrow> v' = v"
    have "from_str_map ?s1 n = Some v" by (simp add: EnumMember_value_def)
    then have "from_str_map (run_calls post ?s1) n = Some v"
      using h by (intro run_calls_keeps_value) auto
    then show "fst (fromString m n (run_calls (pre @ (this, Value n v) # post) s)) = v"
      by (simp add: run fromString_present)
  }
qed

text \<open>
  The pair \<open>(GREEN, Green)\<close> survives a lookup of an unregistered value, an assignment
  through the reference to that value's entry and a second registration of \<open>Red\<close>.
\<close>

theorem C1_witness:
  "toString_read other_color_member Green
     (run_calls [(color_member, Value ''RED'' Red), (color_member, Value ''GREEN'' Green),
                 (other_color_member, ToString Blue),
                 (other_color_member, Assign (Entry Blue) ''HACK''),
                 (color_member, Value ''ROUGE'' Red)]
        statics0) = Some ''GREEN'' \<and>
   fst (fromString other_color_member ''GREEN''
          (run_calls [(color_member, Value ''RED'' Red), (color_member, Value ''GREEN'' Green),
                      (other_color_member, ToString Blue),
                      (other_color_member, Assign (Entry Blue) ''HACK''),
                      (color_member, Value ''ROUGE'' Red)]
             statics0)) = Green"
  using C1_last_write_wins
    [where v = Green and n = "''GREEN''" and m = other_color_member and this = color_member
       and pre = "[(color_member, Value ''RED'' Red)]"
       and post = "[(other_color_member, ToString Blue),
                    (other_color_member, Assign (Entry Blue) ''HACK''),
                    (color_member, Value ''ROUGE'' Red)]"
       and s = statics0]
  by simp

text \<open>
  C1 as stated fails for a pair whose value is registered again under another name:
  after \<open>value(RED, Red)\<close> and \<open>value(ROUGE, Red)\<close>, the pair \<open>(RED, Red)\<close> was
  registered, yet \<open>toString(Red)\<close> is not \<open>RED\<close>.
\<close>

theorem C1_counterexample:
  "toString_read color_member Red
     (run_calls [(color_member, Value ''RED'' Red), (color_member, Value ''ROUGE'' Red)]
        statics0) \<noteq> Some ''RED''"
  by (simp add: EnumMember_value_def toString_read_def toString_def deref_def subscript_def
      statics0_def)

text \<open>
  It fails as well, with a single registration, once the entry is overwritten through the
  reference \<open>toString\<close> returns.
\<close>

lemma registered_name_overwritten:
  "toString_read color_member Green
     (run_calls [(color_member, Value ''GREEN'' Green), (color_member, ToString Green),
                 (color_member, Assign (Entry Green) ''HACK'')]
        statics0) = Some ''HACK''"
  by (simp add: EnumMember_value_def toString_read_def toString_def deref_def assign_def
      subscript_def statics0_def)

subsection \<open>Capability queries\<close>

lemma to_bool_iff: "to_bool p \<longleftrightarrow> (\<exists>x. p = Some x)"
  by (cases p) (simp_all add: to_bool_def)

text \<open>
  C2. The capability predicates report exactly which access strategies are populated:
  \<open>hasGetter\<close> holds iff a reference getter or a value getter is present, \<open>hasSetter\<close>
  iff a reference setter or a value setter is present, \<open>canGetConstRef\<close> iff the
  direct-field flag is set or a reference getter is present, \<open>canGetRef\<close> iff the flag is
  set or a non-const reference getter is present, and \<open>hasPtr\<close> iff the flag is set,
  whatever value the data-member pointer holds.
\<close>

theorem C2_capability_predicates:
  "(hasGetter m \<longleftrightarrow> (\<exists>g. refGetterPtr m = Some g) \<or> (\<exists>g. valGetterPtr m = Some g)) \<and>
   (hasSetter m \<longleftrightarrow> (\<exists>st. refSetterPtr m = Some st) \<or> (\<exists>st. valSetterPtr m = Some st)) \<and>
   (canGetConstRef m \<longleftrightarrow> hasMemberPtr m \<or> (\<exists>g. refGetterPtr m = Some g)) \<and>
   (canGetRef m \<longleftrightarrow> hasMemberPtr m \<or> (\<exists>g. nonConstRefGetterPtr m = Some g)) \<and>
   (hasPtr m \<longleftrightarrow> hasMemberPtr m) \<and>
   (hasPtr (m\<lparr>ptr := p\<rparr>) \<longleftrightarrow> hasPtr m)"
  by (simp add: hasGetter_def hasSetter_def canGetConstRef_def canGetRef_def hasPtr_def
      to_bool_iff)

text \<open>
  The predicates on a member with a direct field and a value accessor pair, on a member
  with a direct field only, and on one whose flag is cleared.
\<close>

theorem C2_witness:
  "hasGetter val_shadowed \<and> hasSetter val_shadowed \<and> canGetConstRef val_shadowed \<and>
   canGetRef val_shadowed \<and> hasPtr val_shadowed \<and> hasPtr (val_shadowed\<lparr>ptr := 5\<rparr>) \<and>
   \<not> hasGetter color_member \<and> \<not> hasSetter color_member \<and>
   \<not> canGetConstRef (val_shadowed\<lparr>hasMemberPtr := False\<rparr>) \<and>
   \<not> hasPtr (val_shadowed\<lparr>hasMemberPtr := False\<rparr>)"
  using C2_capability_predicates [of val_shadowed 5] C2_capability_predicates [of color_member 0]
    C2_capability_predicates [of "val_shadowed\<lparr>hasMemberPtr := False\<rparr>" 0]
  by (simp add: val_shadowed_def color_member_def direct_member_def)

subsection \<open>Enum operations on a non-enumeration type\<close>

text \<open>
  C8 asks that \<open>toString\<close> and \<open>fromString\<close> on a non-enumeration \<open>T\<close> fail on an
  assertion. The condition asserted is the message literal itself, which is true, so neither
  call can fail: \<open>toString\<close> returns the empty string and \<open>fromString\<close> returns its
  uninitialised local, for every instance and every argument.
\<close>

theorem C8_assertion_never_fires:
  "toString_nonenum this val = Inr [] \<and> fromString_nonenum this nm uninit = Inr uninit"
  by (simp add: toString_nonenum_def fromString_nonenum_def c_assert_def literal_condition_def)

text \<open>The assertion of \<open>as_enum\<close>, which tests \<open>is_enum\<close>, does fail.\<close>

lemma as_enum_fails: "as_enum False this = Inl AssertionFailed"
  by (simp add: as_enum_def c_assert_def)

text \<open>\<open>toString(5)\<close> and \<open>fromString("five")\<close> on an integer member: no failure.\<close>

theorem C8_witness:
  "toString_nonenum val_shadowed 5 \<noteq> Inl AssertionFailed \<and>
   fromString_nonenum val_shadowed ''five'' 0 \<noteq> Inl AssertionFailed"
  using C8_assertion_never_fires [of val_shadowed 5 "''five''" 0]
  by simp

subsection \<open>Lookups of keys that were never registered\<close>

lemma exec_call_unregistered:
  assumes "to_str_map s v = None \<or> to_str_map s v = Some []"
    and "\<And>n'. snd c \<noteq> Value n' v"
    and "\<And>str. snd c = Assign (Entry v) str \<Longrightarrow> str = []"
  shows "to_str_map (exec_call c s) v = None \<or> to_str_map (exec_call c s) v = Some []"
proof (cases c)
  case (Pair this k)
  show ?thesis
  proof (cases k)
    case (Value n' v')
    with Pair assms(2) have "v' \<noteq> v" by auto
    with Pair Value assms(1) show ?thesis
      by (auto simp: EnumMember_value_def)
  next
    case (ToString v')
    with Pair assms(1) show ?thesis
      by (auto simp: toString_def subscript_def split: option.splits)
  next
    case (FromString n')
    with Pair assms(1) show ?thesis
      by (auto simp: fromString_def subscript_def split: option.splits)
  next
    case (Assign r str)
    obtain k' where r: "r = Entry k'" by (cases r)
    show ?thesis
    proof (cases "k' = v")
      case True
      with Pair Assign r assms(3) have "str = []" by simp
      with True Pair Assign r assms(1) show ?thesis
        by (auto simp: assign_def)
    next
      case False
      with Pair Assign r assms(1) show ?thesis
        by (auto simp: assign_def split: option.splits)
    qed
  qed
qed

lemma run_calls_unregistered:
  "to_str_map s v = None \<or> to_str_map s v = Some [] \<Longrightarrow>
   (\<And>this n'. (this, Value n' v) \<notin> set cs) \<Longrightarrow>
   (\<And>this str. (this, Assign (Entry v) str) \<in> set cs \<Longrightarrow> str = []) \<Longrightarrow>
   to_str_map (run_calls cs s) v = None \<or> to_str_map (run_calls cs s) v = Some []"
proof (induction cs arbitrary: s)
  case Nil
  then show ?case by simp
next
  case (Cons c cs)
  have "to_str_map (exec_call c s) v = None \<or> to_str_map (exec_call c s) v = Some []"
  proof (rule exec_call_unregistered [OF Cons.prems(1)])
    fix n'
    have "(fst c, Value n' v) \<notin> set (c # cs)" by (rule Cons.prems(2))
    then show "snd c \<noteq> Value n' v" by (cases c) auto
  next
    fix str assume "snd c = Assign (Entry v) str"
    then have "(fst c, Assign (Entry v) str) \<in> set (c # cs)" by (cases c) simp
    then show "str = []" by (rule Cons.prems(3))
  qed
  moreover have "\<And>this n'. (this, Value n' v) \<notin> set cs"
    using Cons.prems(2) by (meson list.set_intros(2))
  moreover have "\<And>this str. (this, Assign (Entry v) str) \<in> set cs \<Longrightarrow> str = []"
    using Cons.prems(3) by auto
  ultimately show ?case using Cons.IH by simp
qed

text \<open>
  C7, as amended. Start from the empty maps and run any history of \<open>value\<close>,
  \<open>toString\<close> and \<open>fromString\<close> calls and of assignments through references that
  \<open>toString\<close> returned, on any instances. If \<open>v\<close> is never registered by \<open>value\<close> and
  nothing but the empty string is ever assigned through a reference to the entry of \<open>v\<close>,
  then \<open>toString(v)\<close> returns a reference to the empty string; it has no failure outcome.
\<close>

theorem C7_unwritten_value_empty_string:
  fixes cs :: "(('f, 'e::zero) Member \<times> 'e call) list"
  assumes "\<And>this n. (this, Value n v) \<notin> set cs"
    and "\<And>this str. (this, Assign (Entry v) str) \<in> set cs \<Longrightarrow> str = []"
  shows "toString_read m v (run_calls cs statics0) = Some []"
proof -
  have "to_str_map (statics0 :: 'e statics) v = None \<or> to_str_map (statics0 :: 'e statics) v = Some []"
    by (simp add: statics0_def)
  then have "to_str_map (run_calls cs statics0) v = None \<or>
             to_str_map (run_calls cs statics0) v = Some []"
    using assms by (rule run_calls_unregistered)
  then show ?thesis
    by (auto simp: toString_read_def toString_def deref_def subscript_def)
qed

text \<open>
  \<open>Blue\<close> is looked up, but never registered or assigned to, in a history that registers
  two other values and overwrites the name of one of them.
\<close>

theorem C7_witness:
  "toString_read color_member Blue
     (run_calls [(color_member, Value ''RED'' Red), (other_color_member, ToString Blue),
                 (color_member, FromString ''BLUE''), (color_member, Value ''GREEN'' Green),
                 (other_color_member, Assign (Entry Green) ''HACK'')]
        statics0) = Some []"
  using C7_unwritten_value_empty_string
    [where v = Blue and m = color_member
       and cs = "[(color_member, Value ''RED'' Red), (other_color_member, ToString Blue),
                 (color_member, FromString ''BLUE''), (color_member, Value ''GREEN'' Green),
                 (other_color_member, Assign (Entry Green) ''HACK'')]"]
  by simp

text \<open>
  C7 as stated fails: \<open>Blue\<close> is never registered by \<open>value\<close>, one instance looks it up
  and assigns through the reference it got, and \<open>toString(Blue)\<close> on another instance
  does not yield the empty string.
\<close>

theorem C7_counterexample:
  "toString_read other_color_member Blue
     (run_calls [(color_member, ToString Blue), (color_member, Assign (Entry Blue) ''HACK'')]
        statics0) \<noteq> Some []"
  by (simp add: toString_read_def toString_def deref_def assign_def subscript_def statics0_def)



subsection \<open>The direct field\<close>

text \<open>
  C9. For a member with a direct field and no getter or setter accessor, every object and
  every value \<open>v\<close>: \<open>set\<close> succeeds, and \<open>getCopy\<close> on the object it leaves returns
  \<open>v\<close>.
\<close>

theorem C9_direct_field_round_trip:
  assumes "hasMemberPtr m" and "\<not> hasGetter m" and "\<not> hasSetter m"
  shows "\<exists>obj'. set_member m obj v = Inr obj' \<and> getCopy m obj' = Inr v"
  using assms
  by (auto simp: hasGetter_def hasSetter_def to_bool_def getCopy_def set_member_def
      split: option.splits)

text \<open>Setting field \<open>x\<close> of \<open>obj0\<close> to 5 and reading it back.\<close>

theorem C9_witness:
  "set_member (direct_member ''x'' (0::nat)) obj0 5 = Inr (obj0(0 := 5)) \<and>
   getCopy (direct_member ''x'' (0::nat)) (obj0(0 := 5)) = Inr 5"
proof -
  let ?m = "direct_member ''x'' (0::nat) :: (nat, int) Member"
  have h: "hasMemberPtr ?m" "\<not> hasGetter ?m" "\<not> hasSetter ?m"
    by (simp_all add: direct_member_def hasGetter_def hasSetter_def to_bool_def)
  have s: "set_member ?m obj0 5 = Inr (obj0(0 := 5))"
    by (simp add: set_member_def direct_member_def)
  from C9_direct_field_round_trip [OF h, of obj0 5] s show ?thesis
    by auto
qed

subsection \<open>Lookups by name and type; unregistered classes\<close>

lemma find_member_miss:
  "(\<And>e. e \<in> set ms \<Longrightarrow> getName (snd e) = nm \<Longrightarrow> fst e \<noteq> T) \<Longrightarrow> find_member ms T nm = None"
proof -
  assume h: "\<And>e. e \<in> set ms \<Longrightarrow> getName (snd e) = nm \<Longrightarrow> fst e \<noteq> T"
  have "find (\<lambda>e. getName (snd e) = nm \<and> fst e = T) ms = None"
    unfolding find_None_iff using h by blast
  then show ?thesis by (simp add: find_member_def)
qed

text \<open>
  C5. Let the collection have a member named \<open>nm\<close>, and let every member of that name
  have a declared type other than \<open>T\<close>. Then \<open>getMemberValue\<close>, \<open>setMemberValue\<close> and
  \<open>doForMember\<close> at type \<open>T\<close> all report the lookup miss, the very outcome they have on a
  collection with no member at all: nothing is read, no object is produced by a write, the
  visitor is not applied, and there is no separate type error.
\<close>

theorem C5_type_mismatch_is_not_found:
  assumes "(T', m) \<in> set ms" and "getName m = nm"
    and "\<forall>e \<in> set ms. getName (snd e) = nm \<longrightarrow> fst e \<noteq> T"
  shows "getMemberValue ms T obj nm = Inl LookupMiss \<and>
         setMemberValue ms T obj nm v = Inl LookupMiss \<and>
         doForMember ms T nm f s = Inl LookupMiss \<and>
         getMemberValue ms T obj nm = getMemberValue [] T obj nm \<and>
         setMemberValue ms T obj nm v = setMemberValue [] T obj nm v \<and>
         doForMember ms T nm f s = doForMember [] T nm f s"
proof -
  have "find_member ms T nm = None"
    using assms(3) by (intro find_member_miss) auto
  moreover have "find_member [] T nm = (None :: ('b, 'c) Member option)"
    by (simp add: find_member_def)
  ultimately show ?thesis
    by (simp add: getMemberValue_def setMemberValue_def doForMember_def)
qed

text \<open>
  \<open>Point\<close> has the integer member \<open>x\<close>; asked for at the floating-point type it is not
  found, at the integer type it is read.
\<close>

theorem C5_witness:
  "getMemberValue (registerMembers registry Point) T_float obj0 ''x'' = Inl LookupMiss \<and>
   setMemberValue (registerMembers registry Point) T_float obj0 ''x'' 5 = Inl LookupMiss \<and>
   doForMember (registerMembers registry Point) T_float ''x'' count_call 0 = Inl LookupMiss \<and>
   getMemberValue (registerMembers registry Point) T_int obj0 ''x'' = Inr 7"
proof -
  let ?ms = "registerMembers registry Point"
  have ms: "?ms = [(T_int, direct_member ''x'' 0), (T_int, direct_member ''y'' 1)]"
    by (simp add: registerMembers_def registry_def)
  have h1: "(T_int, direct_member ''x'' 0) \<in> set ?ms" by (simp add: ms)
  have h2: "getName (direct_member ''x'' (0::nat) :: (nat, int) Member) = ''x''"
    by (simp add: getName_def direct_member_def)
  have h3: "\<forall>e \<in> set ?ms. getName (snd e) = ''x'' \<longrightarrow> fst e \<noteq> T_float"
    by (simp add: ms)
  have ok: "getMemberValue ?ms T_int obj0 ''x'' = Inr 7"
    by (simp add: ms getMemberValue_def find_member_def getName_def direct_member_def
        getCopy_def obj0_def)
  from C5_type_mismatch_is_not_found [OF h1 h2 h3, of obj0 5 count_call 0] ok
  show ?thesis by simp
qed

text \<open>
  C6. For a class with no \<open>registerMembers\<close> specialisation the member collection is
  empty, \<open>hasMember\<close> is false for every name, and \<open>doForAllMembers\<close> leaves whatever the
  visitor acts on untouched: a visitor that counts its invocations counts none. None of
  these has a failure outcome.
\<close>

theorem C6_unregistered_class_is_empty:
  assumes "\<not> isRegistered R C"
  shows "registerMembers R C = [] \<and>
         \<not> hasMember (registerMembers R C) nm \<and>
         doForAllMembers (registerMembers R C) f s = s \<and>
         doForAllMembers (registerMembers R C) count_call 0 = 0"
proof -
  from assms have "R C = None"
    by (cases "R C") (simp_all add: isRegistered_def to_bool_def)
  then have "registerMembers R C = []"
    by (simp add: registerMembers_def)
  then show ?thesis
    by (simp add: hasMember_def doForAllMembers_def)
qed

text \<open>The class without registration, next to \<open>Point\<close> with its two members.\<close>

theorem C6_witness:
  "\<not> isRegistered registry Unregistered \<and>
   registerMembers registry Unregistered = [] \<and>
   \<not> hasMember (registerMembers registry Unregistered) ''anything'' \<and>
   doForAllMembers (registerMembers registry Unregistered) count_call 0 = 0 \<and>
   hasMember (registerMembers registry Point) ''x'' \<and>
   doForAllMembers (registerMembers registry Point) count_call 0 = 2"
proof -
  have h: "\<not> isRegistered registry Unregistered"
    by (simp add: isRegistered_def registry_def to_bool_def)
  have p: "hasMember (registerMembers registry Point) ''x''"
    by (simp add: hasMember_def registerMembers_def registry_def getName_def direct_member_def)
  have q: "doForAllMembers (registerMembers registry Point) count_call 0 = 2"
    by (simp add: doForAllMembers_def registerMembers_def registry_def count_call_def)
  from C6_unregistered_class_is_empty [OF h, of "''anything''" count_call 0] h p q
  show ?thesis by blast
qed

end
